theory Spec2Isabelle
  imports Main "HOL-Library.Sublist"
begin

section \<open>Shared vocabulary of the speech-to-text nodes\<close>

text \<open>
  The repository holds four custom elements that turn microphone audio into text:
  \<^item> \<open>OpenAISttNode\<close> (batch JSON reply) and \<open>OpenAIStreamingSttNode\<close> (event-stream reply),
  \<^item> \<open>AzureSttNode\<close>,
  \<^item> \<open>WebSttNode\<close> (the platform's \<open>webkitSpeechRecognition\<close>).
  A JavaScript value that the TypeScript types declare as a string is modelled as
  \<open>string option\<close>, \<open>None\<close> being \<open>undefined\<close>. Text is a list of code units; all the
  characters the code inspects (line feed, the \<open>data: \<close> prefix, the boundary) are ASCII.
\<close>

type_synonym jsstring = "string option"

abbreviation LF :: char where "LF \<equiv> CHR 0x0A"
abbreviation CR :: char where "CR \<equiv> CHR 0x0D"
abbreviation CRLF :: string where "CRLF \<equiv> [CR, LF]"

text \<open>Every value the code throws, or that a platform promise rejects with.\<close>

datatype error =
    MissingOpenAIKey            \<comment> \<open>\<open>new Error("Missing OpenAI API key")\<close>\<close>
  | MissingAzureCredentials     \<comment> \<open>\<open>new Error("Missing Azure Speech credentials")\<close>\<close>
  | CaptureFailed               \<comment> \<open>\<open>getUserMedia\<close> rejected (permission denied, no device)\<close>
  | AbortError                  \<comment> \<open>the rejection of a fetch or body read whose signal is aborted\<close>
  | NetworkFailure              \<comment> \<open>any other rejection of fetch or of a body read\<close>
  | HttpError nat string        \<comment> \<open>streaming: \<open>new Error(`HTTP ${resp.status}: ${errorText}`)\<close>\<close>
  | NoResponseBody              \<comment> \<open>streaming: \<open>new Error("No response body")\<close>\<close>
  | ErrorPayload                \<comment> \<open>batch: \<open>throw json\<close>; Azure: \<open>new Error(JSON.stringify(result))\<close>\<close>
  | InvalidState                \<comment> \<open>\<open>MediaRecorder.start\<close> on a recorder that is not inactive\<close>
  | RecognizerError string      \<comment> \<open>\<open>e.error\<close> of a \<open>SpeechRecognitionErrorEvent\<close>\<close>

section \<open>The event-stream parser of \<open>transcribeOpenAIStreaming\<close>\<close>

subsection \<open>String primitives\<close>

text \<open>\<open>buffer.split("\n")\<close>: always at least one piece; the last piece is what follows the
  last line feed.\<close>

fun split_lines :: "string \<Rightarrow> string list" where
  "split_lines [] = [[]]"
| "split_lines (c # cs) =
     (let ls = split_lines cs in if c = LF then [] # ls else (c # hd ls) # tl ls)"

text \<open>\<open>String.prototype.trim\<close> on the ASCII white space and line terminators.\<close>

definition js_space :: "char \<Rightarrow> bool" where
  "js_space c = (c \<in> set [CHR 0x09, CHR 0x0A, CHR 0x0B, CHR 0x0C, CHR 0x0D, CHR 0x20])"

definition trim :: "string \<Rightarrow> string" where
  "trim s = rev (dropWhile js_space (rev (dropWhile js_space s)))"

subsection \<open>The parser state and one pass of the loops\<close>

text \<open>
  \<open>JSON.parse\<close> is a platform function. The loop reads three properties of its result
  (\<open>type\<close>, \<open>delta\<close>, \<open>text\<close>), so the result is modelled by these three reads, and the
  parser takes \<open>JSON.parse\<close> as a parameter of type \<open>string \<Rightarrow> frame option\<close>; \<open>None\<close> stands
  for a throw inside the inner \<open>try\<close> (malformed JSON, or a property read on \<open>null\<close>).
\<close>

record frame =
  ftype :: jsstring
  fdelta :: jsstring
  ftext :: jsstring

text \<open>
  The local variables of the read loop, with the calls made so far: \<open>deltas\<close> lists the
  arguments of the \<open>onDelta\<close> calls in order, \<open>warnings\<close> those of \<open>console.warn\<close>.
\<close>

record sse_state =
  buffer :: string
  finalText :: jsstring
  deltas :: "jsstring list"
  warnings :: "string list"

definition sse_init :: sse_state where
  "sse_init = \<lparr>buffer = [], finalText = Some [], deltas = [], warnings = []\<rparr>"

text \<open>\<open>for (const line of lines) { ... }\<close>: the \<open>break\<close> on the sentinel leaves this loop, so
  the remaining lines of the same read are not looked at.\<close>

fun for_lines :: "(string \<Rightarrow> frame option) \<Rightarrow> string list \<Rightarrow> sse_state \<Rightarrow> sse_state" where
  "for_lines parse [] st = st"
| "for_lines parse (line # rest) st =
     (if prefix ''data: '' line then
        (let data = drop 6 line in
         if trim data = ''[DONE]'' then st
         else (case parse data of
                 None \<Rightarrow> for_lines parse rest (st\<lparr>warnings := warnings st @ [data]\<rparr>)
               | Some parsed \<Rightarrow>
                   if ftype parsed = Some ''transcript.text.delta''
                   then for_lines parse rest (st\<lparr>deltas := deltas st @ [fdelta parsed]\<rparr>)
                   else if ftype parsed = Some ''transcript.text.done''
                   then for_lines parse rest (st\<lparr>finalText := ftext parsed\<rparr>)
                   else for_lines parse rest st))
      else for_lines parse rest st)"

text \<open>The body of \<open>while (true)\<close> after a read that delivered \<open>value\<close>:
  \<open>buffer += decode(value); lines = buffer.split("\n"); buffer = lines.pop() || ""\<close>,
  then the loop over \<open>lines\<close>. The streaming \<open>TextDecoder\<close> is the identity here: a read
  delivers the code units of its chunk.\<close>

definition on_read :: "(string \<Rightarrow> frame option) \<Rightarrow> string \<Rightarrow> sse_state \<Rightarrow> sse_state" where
  "on_read parse val st =
     (let lines = split_lines (buffer st @ val)
      in for_lines parse (butlast lines) (st\<lparr>buffer := last lines\<rparr>))"

text \<open>What \<open>reader.read()\<close> settles with, and where the \<open>while (true)\<close> loop stands after a
  list of settled reads: returned, thrown, or suspended in the next \<open>await reader.read()\<close>.\<close>

datatype read_result = Chunk string | EndOfStream | ReadFailed error

datatype loop_outcome = Returned jsstring | Threw error | AwaitingRead

fun read_loop ::
  "(string \<Rightarrow> frame option) \<Rightarrow> read_result list \<Rightarrow> sse_state \<Rightarrow> loop_outcome \<times> sse_state" where
  "read_loop parse [] st = (AwaitingRead, st)"
| "read_loop parse (EndOfStream # rs) st = (Returned (finalText st), st)"
| "read_loop parse (ReadFailed e # rs) st = (Threw e, st)"
| "read_loop parse (Chunk v # rs) st = read_loop parse rs (on_read parse v st)"

subsection \<open>A stand-in for \<open>JSON.parse\<close> on concrete payloads\<close>

text \<open>
  For runs on concrete input, \<open>json_flat\<close> reads an object whose members are strings,
  written without white space and without escapes, such as
  \<open>{"type":"transcript.text.delta","delta":"hello"}\<close>. Any other text is rejected; the
  general statements below hold for every \<open>parse\<close>.
\<close>

datatype jmode =
  AtOpen | KeyOrClose | AtKey | InKey string | AtColon string | AtValue string
  | InValue string string | CommaOrClose | AtEnd

fun flat_scan :: "jmode \<Rightarrow> (string \<times> string) list \<Rightarrow> string \<Rightarrow> (string \<times> string) list option" where
  "flat_scan m acc [] = (if m = AtEnd then Some acc else None)"
| "flat_scan m acc (c # cs) =
     (case m of
        AtOpen \<Rightarrow> if c = CHR ''{'' then flat_scan KeyOrClose acc cs else None
      | KeyOrClose \<Rightarrow>
          if c = CHR ''}'' then flat_scan AtEnd acc cs
          else if c = CHR 0x22 then flat_scan (InKey []) acc cs else None
      | AtKey \<Rightarrow> if c = CHR 0x22 then flat_scan (InKey []) acc cs else None
      | InKey k \<Rightarrow>
          if c = CHR 0x22 then flat_scan (AtColon k) acc cs
          else if c = CHR 0x5C \<or> c = LF then None
          else flat_scan (InKey (k @ [c])) acc cs
      | AtColon k \<Rightarrow> if c = CHR '':'' then flat_scan (AtValue k) acc cs else None
      | AtValue k \<Rightarrow> if c = CHR 0x22 then flat_scan (InValue k []) acc cs else None
      | InValue k v \<Rightarrow>
          if c = CHR 0x22 then flat_scan CommaOrClose (acc @ [(k, v)]) cs
          else if c = CHR 0x5C \<or> c = LF then None
          else flat_scan (InValue k (v @ [c])) acc cs
      | CommaOrClose \<Rightarrow>
          if c = CHR '','' then flat_scan AtKey acc cs
          else if c = CHR ''}'' then flat_scan AtEnd acc cs else None
      | AtEnd \<Rightarrow> None)"

definition json_flat :: "string \<Rightarrow> frame option" where
  "json_flat data =
     map_option
       (\<lambda>kvs. \<lparr>ftype = map_of (rev kvs) ''type'', fdelta = map_of (rev kvs) ''delta'',
               ftext = map_of (rev kvs) ''text''\<rparr>)
       (flat_scan AtOpen [] data)"

subsection \<open>Facts about line splitting\<close>









subsection \<open>Frames split across reads\<close>



subsection \<open>The \<open>[DONE]\<close> sentinel\<close>

text \<open>
  Claim C6. A frame whose payload is \<open>[DONE]\<close> should end the stream. In the code the
  \<open>break\<close> leaves only the loop over the lines of the current read: after a read that
  holds the sentinel the outer loop is suspended in the next \<open>reader.read()\<close>, and a
  frame that a later read delivers is processed (its delta is passed to \<open>onDelta\<close>).
  Only the lines that follow the sentinel within the same read are skipped.
\<close>

theorem done_sentinel_does_not_end_reading:
  \<open>read_loop json_flat [Chunk (''data: [DONE]'' @ [LF])] sse_init = (AwaitingRead, sse_init)
   \<and> read_loop json_flat
        [Chunk (''data: [DONE]'' @ [LF]),
         Chunk (''data: {"type":"transcript.text.delta","delta":"late"}'' @ [LF])] sse_init
       = (AwaitingRead, sse_init\<lparr>deltas := [Some ''late'']\<rparr>)
   \<and> read_loop json_flat
        [Chunk (''data: [DONE]'' @ [LF]
                @ ''data: {"type":"transcript.text.delta","delta":"late"}'' @ [LF])] sse_init
       = (AwaitingRead, sse_init)\<close>
  by (simp add: on_read_def sse_init_def json_flat_def trim_def js_space_def)

section \<open>The multipart request body\<close>

subsection \<open>A reader of \<open>multipart/form-data\<close>\<close>

text \<open>
  The specification states the encoder's correctness against "parsing as multipart form
  data". This reader follows the grammar of RFC 2046, section 5.1.1, for a body that
  begins with its first boundary line: the delimiter is \<open>CRLF "--" boundary\<close>, a part is
  its header lines, an empty line and the octets up to the next delimiter, and the
  delimiter followed by \<open>--\<close> closes the body. It is not part of the repository.

  \<open>split_first d xs\<close> cuts \<open>xs\<close> at the first occurrence of \<open>d\<close>.
\<close>

fun split_first :: "'a list \<Rightarrow> 'a list \<Rightarrow> ('a list \<times> 'a list) option" where
  "split_first d [] = (if d = [] then Some ([], []) else None)"
| "split_first d (x # xs) =
     (if prefix d (x # xs) then Some ([], drop (length d) (x # xs))
      else map_option (\<lambda>(a, b). (x # a, b)) (split_first d xs))"

fun split_crlf :: "string \<Rightarrow> string list" where
  "split_crlf [] = [[]]"
| "split_crlf [c] = [[c]]"
| "split_crlf (c # c' # cs) =
     (if c = CR \<and> c' = LF then [] # split_crlf cs
      else (let ls = split_crlf (c' # cs) in (c # hd ls) # tl ls))"

record part =
  headers :: "string list"
  content :: string

definition parse_part :: "string \<Rightarrow> part option" where
  "parse_part t =
     (case split_first (CRLF @ CRLF) t of
        None \<Rightarrow> None
      | Some (h, b) \<Rightarrow> Some \<lparr>headers = split_crlf h, content = b\<rparr>)"

lemma split_first_length: "split_first d t = Some (p, r) \<Longrightarrow> length r \<le> length t"
  by (induction t arbitrary: p) (auto split: if_splits)

function parts :: "string \<Rightarrow> string \<Rightarrow> part list option" where
  "parts delim t =
     (case split_first delim t of
        None \<Rightarrow> None
      | Some (p, rest) \<Rightarrow>
          (case parse_part p of
             None \<Rightarrow> None
           | Some pt \<Rightarrow>
               if prefix ''--'' rest then Some [pt]
               else if prefix CRLF rest then map_option ((#) pt) (parts delim (drop 2 rest))
               else None))"
  by pat_completeness auto
termination
proof (relation "measure (\<lambda>(delim, t). length t)")
  show "wf (measure (\<lambda>(delim, t). length t))" by simp
next
  fix delim t :: string and x2 p rest x2a
  assume "split_first delim t = Some x2" "(p, rest) = x2" "prefix CRLF rest"
  then have "length rest \<le> length t" "2 \<le> length rest"
    by (auto dest: split_first_length simp: prefix_def)
  then show "((delim, drop 2 rest), delim, t) \<in> measure (\<lambda>(delim, t). length t)"
    by simp
qed

declare parts.simps [simp del]

fun strip_prefix :: "'a list \<Rightarrow> 'a list \<Rightarrow> 'a list option" where
  "strip_prefix [] ys = Some ys"
| "strip_prefix (x # xs) [] = None"
| "strip_prefix (x # xs) (y # ys) = (if x = y then strip_prefix xs ys else None)"

definition parse_multipart :: "string \<Rightarrow> string \<Rightarrow> part list option" where
  "parse_multipart boundary body =
     (case strip_prefix (''--'' @ boundary @ CRLF) body of
        None \<Rightarrow> None
      | Some rest \<Rightarrow> parts (CRLF @ ''--'' @ boundary) rest)"

lemma strip_prefix_append: "strip_prefix p (p @ r) = Some r"
  by (induction p) auto

subsection \<open>Where the first delimiter is found\<close>

lemma prefix_overlap:
  assumes "prefix d (u @ d @ r)" and "u \<noteq> []" and "d \<noteq> []"
  shows "prefix d (u @ butlast d)"
proof -
  have "prefix (u @ butlast d) (u @ d @ r)"
    by (metis append_butlast_last_id assms(3) prefix_def append.assoc same_prefix_prefix prefixI)
  moreover have "length d \<le> length (u @ butlast d)"
    using assms(2,3) by (cases u) auto
  ultimately show ?thesis
    using assms(1) prefix_length_prefix by blast
qed

lemma split_first_unique:
  assumes "\<not> sublist d (c @ butlast d)" and "d \<noteq> []"
  shows "split_first d (c @ d @ r) = Some (c, r)"
  using assms
proof (induction c)
  case Nil
  then show ?case by (cases d) auto
next
  case (Cons x c)
  have "\<not> prefix d ((x # c) @ d @ r)"
    using Cons.prems prefix_overlap [of d "x # c" r] by auto
  moreover have "\<not> sublist d (c @ butlast d)"
    using Cons.prems(1) by (simp add: sublist_Cons_right)
  ultimately show ?case using Cons by simp
qed

lemma no_overlap:
  assumes "x \<notin> set d'" and "\<not> sublist (x # d') c"
  shows "\<not> sublist (x # d') (c @ butlast (x # d'))"
  using assms(2)
proof (induction c)
  case Nil
  have "length (butlast (x # d')) < length (x # d')" by simp
  then show ?case using sublist_length_le [of "x # d'" "butlast (x # d')"] by auto
next
  case (Cons y c)
  have ih: "\<not> sublist (x # d') (c @ butlast (x # d'))"
    using Cons by (simp add: sublist_Cons_right)
  have "\<not> prefix (x # d') ((y # c) @ butlast (x # d'))"
  proof
    assume p: "prefix (x # d') ((y # c) @ butlast (x # d'))"
    have np: "\<not> prefix (x # d') (y # c)" using Cons.prems by auto
    from p np obtain us where us: "x # d' = (y # c) @ us" "prefix us (butlast (x # d'))"
      by (auto simp: prefix_append)
    have "us \<noteq> []" using us(1) np by auto
    moreover have "prefix us (x # d')"
      using us(2) prefix_order.trans prefixeq_butlast by blast
    ultimately have "hd us = x" by (cases us) auto
    with \<open>us \<noteq> []\<close> have "x \<in> set us" by (cases us) auto
    with us(1) have "x \<in> set d'" by auto
    with assms(1) show False by simp
  qed
  with ih show ?case by (simp add: sublist_Cons_right)
qed

lemma split_first_delim:
  assumes "x \<notin> set d'" and "\<not> sublist (x # d') c"
  shows "split_first (x # d') (c @ (x # d') @ r) = Some (c, r)"
  using split_first_unique [OF no_overlap [OF assms]] by simp


subsection \<open>The encoder of \<open>transcribeOpenAI\<close>, \<open>transcribeOpenAIStreaming\<close> and \<open>transcribe\<close>\<close>

text \<open>
  \<open>"----WebKitFormBoundary" + Math.random().toString(36).slice(2)\<close>: the random suffix
  is a parameter.
\<close>

definition boundary_of :: "string \<Rightarrow> string" where
  "boundary_of rnd = ''----WebKitFormBoundary'' @ rnd"

definition delimiter :: "string \<Rightarrow> string" where
  "delimiter boundary = CRLF @ ''--'' @ boundary"

text \<open>\<open>mediaRecorder.mimeType || "audio/webm"\<close>\<close>

definition mime_or_default :: "string \<Rightarrow> string" where
  "mime_or_default mimeType = (if mimeType = [] then ''audio/webm'' else mimeType)"

text \<open>The preamble of \<open>transcribeOpenAI\<close> (model field) and of
  \<open>transcribeOpenAIStreaming\<close> (model field and \<open>stream=true\<close>), and the epilogue of both.\<close>

definition preamble_batch :: "string \<Rightarrow> string \<Rightarrow> string \<Rightarrow> string" where
  \<open>preamble_batch boundary model mimeType =
     ''--'' @ boundary @ CRLF @
     ''Content-Disposition: form-data; name="model"'' @ CRLF @ CRLF @
     model @ CRLF @
     ''--'' @ boundary @ CRLF @
     ''Content-Disposition: form-data; name="file"; filename="audio.webm"'' @ CRLF @
     ''Content-Type: '' @ mime_or_default mimeType @ CRLF @ CRLF\<close>

definition preamble_streaming :: "string \<Rightarrow> string \<Rightarrow> string \<Rightarrow> string" where
  \<open>preamble_streaming boundary model mimeType =
     ''--'' @ boundary @ CRLF @
     ''Content-Disposition: form-data; name="model"'' @ CRLF @ CRLF @
     model @ CRLF @
     ''--'' @ boundary @ CRLF @
     ''Content-Disposition: form-data; name="stream"'' @ CRLF @ CRLF @
     ''true'' @ CRLF @
     ''--'' @ boundary @ CRLF @
     ''Content-Disposition: form-data; name="file"; filename="audio.webm"'' @ CRLF @
     ''Content-Type: '' @ mime_or_default mimeType @ CRLF @ CRLF\<close>

definition epilogue :: "string \<Rightarrow> string" where
  "epilogue boundary = CRLF @ ''--'' @ boundary @ ''--'' @ CRLF"

text \<open>
  Azure's \<open>transcribe\<close>: \<open>JSON.stringify({locales: [locale], profanityFilterMode})\<close> with
  the only locale the options type admits, and the seven strings of \<open>formDataParts\<close>,
  each enqueued on its own. Its closing line is the same text as \<open>epilogue\<close>.
\<close>

datatype profanity = PNone | Masked | Removed | Tags

fun profanity_name :: "profanity \<Rightarrow> string" where
  "profanity_name PNone = ''None''"
| "profanity_name Masked = ''Masked''"
| "profanity_name Removed = ''Removed''"
| "profanity_name Tags = ''Tags''"

definition definition_json :: "profanity \<Rightarrow> string" where
  \<open>definition_json mode =
     ''{"locales":["en-US"],"profanityFilterMode":"'' @ profanity_name mode @ ''"}''\<close>

definition formDataParts :: "string \<Rightarrow> profanity \<Rightarrow> string list" where
  \<open>formDataParts boundary mode =
     [''--'' @ boundary @ CRLF,
      ''Content-Disposition: form-data; name="definition"'' @ CRLF,
      ''Content-Type: application/json'' @ CRLF @ CRLF,
      definition_json mode @ CRLF,
      ''--'' @ boundary @ CRLF,
      ''Content-Disposition: form-data; name="audio"; filename="audio.wav"'' @ CRLF,
      ''Content-Type: audio/wav'' @ CRLF @ CRLF]\<close>

text \<open>
  The recorder raises \<open>dataavailable\<close> and \<open>stop\<close>. \<open>ondataavailable\<close> enqueues the blob
  on the audio stream (the OpenAI variants only when \<open>ev.data.size > 0\<close>), \<open>onstop\<close> closes
  it; \<open>audio_reads\<close> is what the reads of the audio stream then deliver, in order.
\<close>

datatype recorder_event = DataAvailable string | Stopped

datatype 'a read = Value 'a | Done

fun audio_reads :: "bool \<Rightarrow> recorder_event list \<Rightarrow> string read list" where
  "audio_reads skip_empty [] = []"
| "audio_reads skip_empty (Stopped # evs) = [Done]"
| "audio_reads skip_empty (DataAvailable d # evs) =
     (if skip_empty \<and> d = [] then audio_reads skip_empty evs
      else Value d # audio_reads skip_empty evs)"

text \<open>
  \<open>start(ctrl)\<close> of the body stream: enqueue the preamble, then for each read of the audio
  stream either enqueue its bytes or, on \<open>done\<close>, leave the loop, enqueue the epilogue and
  close. \<open>pump\<close> is the \<open>while (true)\<close> loop on the reads settled so far; when they run
  out the loop is suspended in \<open>reader.read()\<close> and the stream is still open.
\<close>

record body_stream =
  chunks :: "string list"
  closed :: bool

fun pump :: "string \<Rightarrow> string read list \<Rightarrow> body_stream \<Rightarrow> body_stream" where
  "pump epi [] out = out"
| "pump epi (Done # rs) out = out\<lparr>chunks := chunks out @ [epi], closed := True\<rparr>"
| "pump epi (Value v # rs) out = pump epi rs (out\<lparr>chunks := chunks out @ [v]\<rparr>)"

definition multipartStream :: "string list \<Rightarrow> string \<Rightarrow> string read list \<Rightarrow> body_stream" where
  "multipartStream pre epi reads = pump epi reads \<lparr>chunks = pre, closed = False\<rparr>"

fun values_before_done :: "'a read list \<Rightarrow> 'a list" where
  "values_before_done [] = []"
| "values_before_done (Done # rs) = []"
| "values_before_done (Value v # rs) = v # values_before_done rs"

subsection \<open>What the body stream has emitted\<close>

lemma pump_chunks:
  "chunks (pump epi reads out) =
     chunks out @ values_before_done reads @ (if Done \<in> set reads then [epi] else [])"
  by (induction epi reads out rule: pump.induct) auto

lemma pump_closed: "closed (pump epi reads out) = (closed out \<or> Done \<in> set reads)"
  by (induction epi reads out rule: pump.induct) auto

lemma audio_reads_stopped:
  "concat (values_before_done (audio_reads skip (map DataAvailable blobs @ [Stopped]))) = concat blobs
   \<and> Done \<in> set (audio_reads skip (map DataAvailable blobs @ [Stopped]))"
  by (induction blobs) auto

lemma audio_reads_running:
  "concat (values_before_done (audio_reads skip (map DataAvailable blobs))) = concat blobs
   \<and> Done \<notin> set (audio_reads skip (map DataAvailable blobs))"
  by (induction blobs) auto

subsection \<open>Parts are read back\<close>

lemma sublist_skip:
  "x \<notin> set m \<Longrightarrow> sublist (x # d') (m @ r) \<longleftrightarrow> sublist (x # d') r"
  by (induction m) (auto simp: sublist_Cons_right)

lemma split_crlf_plain: "CR \<notin> set m \<Longrightarrow> split_crlf m = [m]"
  by (induction m rule: split_crlf.induct) (auto simp: Let_def)

lemma split_crlf_line: "CR \<notin> set a \<Longrightarrow> split_crlf (a @ CR # LF # b) = a # split_crlf b"
  by (induction a rule: split_crlf.induct) (auto simp: Let_def)

lemma parse_part_block:
  assumes "\<not> sublist (CRLF @ CRLF) (H @ [CR, LF, CR])"
  shows "parse_part (H @ CRLF @ CRLF @ v) = Some \<lparr>headers = split_crlf H, content = v\<rparr>"
  using split_first_unique [of "CRLF @ CRLF" H v] assms by (simp add: parse_part_def)

lemma parts_step:
  assumes "x \<notin> set d'" and "\<not> sublist (x # d') P" and "parse_part P = Some pt"
  shows "parts (x # d') (P @ (x # d') @ CRLF @ rest) = map_option ((#) pt) (parts (x # d') rest)"
  using split_first_delim [OF assms(1,2), of "CRLF @ rest"] assms(3)
  by (subst parts.simps) simp

lemma parts_last:
  assumes "x \<notin> set d'" and "\<not> sublist (x # d') P" and "parse_part P = Some pt"
  shows "parts (x # d') (P @ (x # d') @ ''--'' @ rest) = Some [pt]"
  using split_first_delim [OF assms(1,2), of "''--'' @ rest"] assms(3)
  by (subst parts.simps) simp

lemma no_blank_line: "CR \<notin> set H \<Longrightarrow> \<not> sublist (CRLF @ CRLF) (H @ [CR, LF, CR])"
  using sublist_skip [of CR H "[LF, CR, LF]" "[CR, LF, CR]"]
  by (simp add: sublist_Cons_right)

lemma no_blank_line2:
  "CR \<notin> set H \<Longrightarrow> CR \<notin> set H' \<Longrightarrow> H' \<noteq> [] \<Longrightarrow> \<not> sublist (CRLF @ CRLF) (H @ CRLF @ H' @ [CR, LF, CR])"
  using sublist_skip [of CR H "[LF, CR, LF]" "CRLF @ H' @ [CR, LF, CR]"]
    sublist_skip [of CR H' "[LF, CR, LF]" "[CR, LF, CR]"]
  by (cases H') (auto simp: sublist_Cons_right)

lemma no_delim_value:
  assumes "CR \<notin> set H" and "\<not> sublist (CR # LF # CHR ''-'' # d) (CRLF @ v)"
  shows "\<not> sublist (CR # LF # CHR ''-'' # d) (H @ CRLF @ CRLF @ v)"
  using sublist_skip [of CR H "LF # CHR ''-'' # d" "CRLF @ CRLF @ v"] assms
  by (simp add: sublist_Cons_right)

lemma no_delim_value2:
  assumes "CR \<notin> set H" and "CR \<notin> set H'" and "H' \<noteq> []" and "hd H' \<noteq> CHR ''-''"
    and "\<not> sublist (CR # LF # CHR ''-'' # d) (CRLF @ v)"
  shows "\<not> sublist (CR # LF # CHR ''-'' # d) (H @ CRLF @ H' @ CRLF @ CRLF @ v)"
  using sublist_skip [of CR H "LF # CHR ''-'' # d" "CRLF @ H' @ CRLF @ CRLF @ v"]
    sublist_skip [of CR H' "LF # CHR ''-'' # d" "CRLF @ CRLF @ v"] assms
  by (cases H') (auto simp: sublist_Cons_right)

lemma roundtrip_streaming_body:
  assumes B: "CR \<notin> set B"
    and M: "\<not> sublist (delimiter B) (CRLF @ model)"
    and T: "CR \<notin> set mimeType"
    and A: "\<not> sublist (delimiter B) (CRLF @ audio)"
  shows \<open>parse_multipart B (preamble_streaming B model mimeType @ audio @ epilogue B) =
    Some [\<lparr>headers = [''Content-Disposition: form-data; name="model"''], content = model\<rparr>,
          \<lparr>headers = [''Content-Disposition: form-data; name="stream"''], content = ''true''\<rparr>,
          \<lparr>headers = [''Content-Disposition: form-data; name="file"; filename="audio.webm"'',
                       ''Content-Type: '' @ mime_or_default mimeType], content = audio\<rparr>]\<close>
proof -
  define d' where "d' = LF # CHR ''-'' # CHR ''-'' # B"
  define H1 where \<open>H1 = ''Content-Disposition: form-data; name="model"''\<close>
  define H2 where \<open>H2 = ''Content-Disposition: form-data; name="stream"''\<close>
  define H3 where \<open>H3 = ''Content-Disposition: form-data; name="file"; filename="audio.webm"''\<close>
  define H4 where \<open>H4 = ''Content-Type: '' @ mime_or_default mimeType\<close>
  define P1 where "P1 = H1 @ CRLF @ CRLF @ model"
  define P2 where "P2 = H2 @ CRLF @ CRLF @ ''true''"
  define P3 where "P3 = H3 @ CRLF @ H4 @ CRLF @ CRLF @ audio"
  have del: "delimiter B = CR # d'" by (simp add: delimiter_def d'_def)
  have x: "CR \<notin> set d'" using B by (simp add: d'_def)
  have h1: "CR \<notin> set H1" by (simp add: H1_def)
  have h2: "CR \<notin> set H2" by (simp add: H2_def)
  have h3: "CR \<notin> set H3" by (simp add: H3_def)
  have h4: "CR \<notin> set H4" "H4 \<noteq> []" "hd H4 \<noteq> CHR ''-''"
    using T by (simp_all add: H4_def mime_or_default_def)
  have body: "preamble_streaming B model mimeType @ audio @ epilogue B =
      (''--'' @ B @ CRLF) @ P1 @ (CR # d') @ CRLF @ P2 @ (CR # d') @ CRLF @ P3 @ (CR # d') @ ''--'' @ CRLF"
    by (simp add: preamble_streaming_def epilogue_def P1_def P2_def P3_def H1_def H2_def H3_def
        H4_def d'_def)
  have pp1: "parse_part P1 = Some \<lparr>headers = [H1], content = model\<rparr>"
    unfolding P1_def using parse_part_block [OF no_blank_line [OF h1]] h1
    by (simp add: split_crlf_plain)
  have pp2: "parse_part P2 = Some \<lparr>headers = [H2], content = ''true''\<rparr>"
    unfolding P2_def using parse_part_block [OF no_blank_line [OF h2]] h2
    by (simp add: split_crlf_plain)
  have pp3: "parse_part P3 = Some \<lparr>headers = [H3, H4], content = audio\<rparr>"
    using parse_part_block [of "H3 @ CRLF @ H4" audio] no_blank_line2 [OF h3 h4(1,2)] h3 h4(1)
    by (simp add: P3_def split_crlf_plain split_crlf_line)
  have n1: "\<not> sublist (CR # d') P1"
    unfolding P1_def d'_def using no_delim_value [OF h1] M
    by (simp add: delimiter_def)
  have n2: "\<not> sublist (CR # d') P2"
    unfolding P2_def d'_def using no_delim_value [OF h2, of "CHR ''-'' # B" "''true''"]
    by (simp add: sublist_Cons_right)
  have n3: "\<not> sublist (CR # d') P3"
    unfolding P3_def d'_def using no_delim_value2 [OF h3 h4] A
    by (simp add: delimiter_def)
  have "parse_multipart B (preamble_streaming B model mimeType @ audio @ epilogue B) =
      parts (CR # d') (P1 @ (CR # d') @ CRLF @ P2 @ (CR # d') @ CRLF @ P3 @ (CR # d') @ ''--'' @ CRLF)"
    unfolding body parse_multipart_def by (simp only: strip_prefix_append) (simp add: d'_def)
  also have "\<dots> = Some [\<lparr>headers = [H1], content = model\<rparr>, \<lparr>headers = [H2], content = ''true''\<rparr>,
      \<lparr>headers = [H3, H4], content = audio\<rparr>]"
    by (simp only: parts_step [OF x n1 pp1] parts_step [OF x n2 pp2] parts_last [OF x n3 pp3]
        option.map)
  finally show ?thesis by (simp add: H1_def H2_def H3_def H4_def)
qed

lemma roundtrip_batch_body:
  assumes B: "CR \<notin> set B"
    and M: "\<not> sublist (delimiter B) (CRLF @ model)"
    and T: "CR \<notin> set mimeType"
    and A: "\<not> sublist (delimiter B) (CRLF @ audio)"
  shows \<open>parse_multipart B (preamble_batch B model mimeType @ audio @ epilogue B) =
    Some [\<lparr>headers = [''Content-Disposition: form-data; name="model"''], content = model\<rparr>,
          \<lparr>headers = [''Content-Disposition: form-data; name="file"; filename="audio.webm"'',
                       ''Content-Type: '' @ mime_or_default mimeType], content = audio\<rparr>]\<close>
proof -
  define d' where "d' = LF # CHR ''-'' # CHR ''-'' # B"
  define H1 where \<open>H1 = ''Content-Disposition: form-data; name="model"''\<close>
  define H3 where \<open>H3 = ''Content-Disposition: form-data; name="file"; filename="audio.webm"''\<close>
  define H4 where \<open>H4 = ''Content-Type: '' @ mime_or_default mimeType\<close>
  define P1 where "P1 = H1 @ CRLF @ CRLF @ model"
  define P3 where "P3 = H3 @ CRLF @ H4 @ CRLF @ CRLF @ audio"
  have x: "CR \<notin> set d'" using B by (simp add: d'_def)
  have h1: "CR \<notin> set H1" by (simp add: H1_def)
  have h3: "CR \<notin> set H3" by (simp add: H3_def)
  have h4: "CR \<notin> set H4" "H4 \<noteq> []" "hd H4 \<noteq> CHR ''-''"
    using T by (simp_all add: H4_def mime_or_default_def)
  have body: "preamble_batch B model mimeType @ audio @ epilogue B =
      (''--'' @ B @ CRLF) @ P1 @ (CR # d') @ CRLF @ P3 @ (CR # d') @ ''--'' @ CRLF"
    by (simp add: preamble_batch_def epilogue_def P1_def P3_def H1_def H3_def H4_def d'_def)
  have pp1: "parse_part P1 = Some \<lparr>headers = [H1], content = model\<rparr>"
    unfolding P1_def using parse_part_block [OF no_blank_line [OF h1]] h1
    by (simp add: split_crlf_plain)
  have pp3: "parse_part P3 = Some \<lparr>headers = [H3, H4], content = audio\<rparr>"
    using parse_part_block [of "H3 @ CRLF @ H4" audio] no_blank_line2 [OF h3 h4(1,2)] h3 h4(1)
    by (simp add: P3_def split_crlf_plain split_crlf_line)
  have n1: "\<not> sublist (CR # d') P1"
    unfolding P1_def d'_def using no_delim_value [OF h1] M
    by (simp add: delimiter_def)
  have n3: "\<not> sublist (CR # d') P3"
    unfolding P3_def d'_def using no_delim_value2 [OF h3 h4] A
    by (simp add: delimiter_def)
  have "parse_multipart B (preamble_batch B model mimeType @ audio @ epilogue B) =
      parts (CR # d') (P1 @ (CR # d') @ CRLF @ P3 @ (CR # d') @ ''--'' @ CRLF)"
    unfolding body parse_multipart_def by (simp only: strip_prefix_append) (simp add: d'_def)
  also have "\<dots> = Some [\<lparr>headers = [H1], content = model\<rparr>, \<lparr>headers = [H3, H4], content = audio\<rparr>]"
    by (simp only: parts_step [OF x n1 pp1] parts_last [OF x n3 pp3] option.map)
  finally show ?thesis by (simp add: H1_def H3_def H4_def)
qed

lemma definition_json_clean:
  "CR \<notin> set (definition_json mode) \<and> hd (definition_json mode) = CHR ''{''"
  by (cases mode) (simp_all add: definition_json_def)

lemma roundtrip_azure_body:
  assumes B: "CR \<notin> set B"
    and A: "\<not> sublist (delimiter B) (CRLF @ audio)"
  shows \<open>parse_multipart B (concat (formDataParts B mode) @ audio @ epilogue B) =
    Some [\<lparr>headers = [''Content-Disposition: form-data; name="definition"'',
                       ''Content-Type: application/json''], content = definition_json mode\<rparr>,
          \<lparr>headers = [''Content-Disposition: form-data; name="audio"; filename="audio.wav"'',
                       ''Content-Type: audio/wav''], content = audio\<rparr>]\<close>
proof -
  define d' where "d' = LF # CHR ''-'' # CHR ''-'' # B"
  define H1 where \<open>H1 = ''Content-Disposition: form-data; name="definition"''\<close>
  define H2 where \<open>H2 = ''Content-Type: application/json''\<close>
  define H3 where \<open>H3 = ''Content-Disposition: form-data; name="audio"; filename="audio.wav"''\<close>
  define H4 where \<open>H4 = ''Content-Type: audio/wav''\<close>
  define P1 where "P1 = H1 @ CRLF @ H2 @ CRLF @ CRLF @ definition_json mode"
  define P3 where "P3 = H3 @ CRLF @ H4 @ CRLF @ CRLF @ audio"
  have x: "CR \<notin> set d'" using B by (simp add: d'_def)
  have h1: "CR \<notin> set H1" by (simp add: H1_def)
  have h2: "CR \<notin> set H2" "H2 \<noteq> []" "hd H2 \<noteq> CHR ''-''" by (simp_all add: H2_def)
  have h3: "CR \<notin> set H3" by (simp add: H3_def)
  have h4: "CR \<notin> set H4" "H4 \<noteq> []" "hd H4 \<noteq> CHR ''-''" by (simp_all add: H4_def)
  have body: "concat (formDataParts B mode) @ audio @ epilogue B =
      (''--'' @ B @ CRLF) @ P1 @ (CR # d') @ CRLF @ P3 @ (CR # d') @ ''--'' @ CRLF"
    by (simp add: formDataParts_def epilogue_def P1_def P3_def H1_def H2_def H3_def H4_def d'_def)
  have pp1: "parse_part P1 = Some \<lparr>headers = [H1, H2], content = definition_json mode\<rparr>"
    using parse_part_block [of "H1 @ CRLF @ H2" "definition_json mode"]
      no_blank_line2 [OF h1 h2(1,2)] h1 h2(1)
    by (simp add: P1_def split_crlf_plain split_crlf_line)
  have pp3: "parse_part P3 = Some \<lparr>headers = [H3, H4], content = audio\<rparr>"
    using parse_part_block [of "H3 @ CRLF @ H4" audio] no_blank_line2 [OF h3 h4(1,2)] h3 h4(1)
    by (simp add: P3_def split_crlf_plain split_crlf_line)
  have dj: "\<not> sublist (CR # LF # CHR ''-'' # CHR ''-'' # B) (CRLF @ definition_json mode)"
    using definition_json_clean [of mode]
      sublist_skip [of CR "definition_json mode" "LF # CHR ''-'' # CHR ''-'' # B" "[]"]
    by (cases "definition_json mode") (auto simp: sublist_Cons_right)
  have n1: "\<not> sublist (CR # d') P1"
    unfolding P1_def d'_def using no_delim_value2 [OF h1 h2 dj] by simp
  have n3: "\<not> sublist (CR # d') P3"
    unfolding P3_def d'_def using no_delim_value2 [OF h3 h4] A
    by (simp add: delimiter_def)
  have "parse_multipart B (concat (formDataParts B mode) @ audio @ epilogue B) =
      parts (CR # d') (P1 @ (CR # d') @ CRLF @ P3 @ (CR # d') @ ''--'' @ CRLF)"
    unfolding body parse_multipart_def by (simp only: strip_prefix_append) (simp add: d'_def)
  also have "\<dots> = Some [\<lparr>headers = [H1, H2], content = definition_json mode\<rparr>,
      \<lparr>headers = [H3, H4], content = audio\<rparr>]"
    by (simp only: parts_step [OF x n1 pp1] parts_last [OF x n3 pp3] option.map)
  finally show ?thesis by (simp add: H1_def H2_def H3_def H4_def)
qed

lemma stream_bytes:
  "concat (chunks (multipartStream pre epi (audio_reads skip (map DataAvailable blobs @ [Stopped]))))
     = concat pre @ concat blobs @ epi"
  using audio_reads_stopped [of skip blobs]
  by (simp add: multipartStream_def pump_chunks)

text \<open>
  Claim C7 (as amended). Let the boundary suffix and the recorder's MIME type hold no
  carriage return, and let the delimiter \<open>CRLF "--" boundary\<close> occur neither in
  \<open>CRLF model\<close> nor in \<open>CRLF\<close> followed by the audio bytes. Then the bytes emitted for
  blobs \<open>blobs\<close> followed by the recorder's stop read back, as multipart form data, as
  the static fields in their order and a file part whose content is exactly
  \<open>concat blobs\<close>, for the two OpenAI encoders and for the Azure encoder. For every list
  of settled reads of the audio stream, the chunks emitted so far are the preamble, then
  the audio values in arrival order, then the epilogue if and only if \<open>done\<close> was read;
  only then is the body closed.
\<close>

theorem multipart_roundtrip:
  assumes "CR \<notin> set rnd"
    and "\<not> sublist (delimiter (boundary_of rnd)) (CRLF @ model)"
    and "CR \<notin> set mimeType"
    and "\<not> sublist (delimiter (boundary_of rnd)) (CRLF @ concat blobs)"
  shows \<open>parse_multipart (boundary_of rnd)
       (concat (chunks (multipartStream [preamble_streaming (boundary_of rnd) model mimeType]
          (epilogue (boundary_of rnd)) (audio_reads True (map DataAvailable blobs @ [Stopped])))))
     = Some [\<lparr>headers = [''Content-Disposition: form-data; name="model"''], content = model\<rparr>,
             \<lparr>headers = [''Content-Disposition: form-data; name="stream"''], content = ''true''\<rparr>,
             \<lparr>headers = [''Content-Disposition: form-data; name="file"; filename="audio.webm"'',
                          ''Content-Type: '' @ mime_or_default mimeType],
                content = concat blobs\<rparr>]
   \<and> parse_multipart (boundary_of rnd)
       (concat (chunks (multipartStream [preamble_batch (boundary_of rnd) model mimeType]
          (epilogue (boundary_of rnd)) (audio_reads True (map DataAvailable blobs @ [Stopped])))))
     = Some [\<lparr>headers = [''Content-Disposition: form-data; name="model"''], content = model\<rparr>,
             \<lparr>headers = [''Content-Disposition: form-data; name="file"; filename="audio.webm"'',
                          ''Content-Type: '' @ mime_or_default mimeType],
                content = concat blobs\<rparr>]
   \<and> parse_multipart (boundary_of rnd)
       (concat (chunks (multipartStream (formDataParts (boundary_of rnd) mode)
          (epilogue (boundary_of rnd)) (audio_reads False (map DataAvailable blobs @ [Stopped])))))
     = Some [\<lparr>headers = [''Content-Disposition: form-data; name="definition"'',
                          ''Content-Type: application/json''],
                content = definition_json mode\<rparr>,
             \<lparr>headers = [''Content-Disposition: form-data; name="audio"; filename="audio.wav"'',
                          ''Content-Type: audio/wav''],
                content = concat blobs\<rparr>]
   \<and> chunks (multipartStream pre epi reads)
     = pre @ values_before_done reads @ (if Done \<in> set reads then [epi] else [])
   \<and> closed (multipartStream pre epi reads) = (Done \<in> set reads)\<close>
proof -
  have B: "CR \<notin> set (boundary_of rnd)"
    using assms(1) by (simp add: boundary_of_def)
  have s: "concat [p] @ r = p @ r" for p r :: string by simp
  show ?thesis
    unfolding stream_bytes s
    using roundtrip_streaming_body [OF B assms(2,3,4)] roundtrip_batch_body [OF B assms(2,3,4)]
      roundtrip_azure_body [OF B assms(4)]
    by (simp add: multipartStream_def pump_chunks pump_closed)
qed

text \<open>A request with three blobs, one of them empty, and two states of the body stream:
  still recording, and stopped.\<close>

theorem multipart_roundtrip_witness:
  \<open>CR \<notin> set ''k3x9''
   \<and> \<not> sublist (delimiter (boundary_of ''k3x9'')) (CRLF @ ''gpt-4o-mini-transcribe'')
   \<and> CR \<notin> set ''audio/webm''
   \<and> \<not> sublist (delimiter (boundary_of ''k3x9'')) (CRLF @ concat [''ab'', [], ''cd''])
   \<and> map_option (map content)
       (parse_multipart (boundary_of ''k3x9'')
         (concat (chunks (multipartStream
            [preamble_streaming (boundary_of ''k3x9'') ''gpt-4o-mini-transcribe'' ''audio/webm'']
            (epilogue (boundary_of ''k3x9''))
            (audio_reads True (map DataAvailable [''ab'', [], ''cd''] @ [Stopped]))))))
     = Some [''gpt-4o-mini-transcribe'', ''true'', ''abcd'']
   \<and> chunks (multipartStream [''P''] ''E'' [Value ''a'', Value ''b'']) = [''P'', ''a'', ''b'']
   \<and> chunks (multipartStream [''P''] ''E'' [Value ''a'', Done]) = [''P'', ''a'', ''E'']\<close>
proof -
  have h1: "CR \<notin> set ''k3x9''" by simp
  have h2: "\<not> sublist (delimiter (boundary_of ''k3x9'')) (CRLF @ ''gpt-4o-mini-transcribe'')"
    by (simp add: delimiter_def boundary_of_def sublist_Cons_right)
  have h3: "CR \<notin> set ''audio/webm''" by simp
  have h4: "\<not> sublist (delimiter (boundary_of ''k3x9'')) (CRLF @ concat [''ab'', [], ''cd''])"
    by (simp add: delimiter_def boundary_of_def sublist_Cons_right)
  note T = multipart_roundtrip [OF h1 h2 h3 h4]
  have a: "map_option (map content)
       (parse_multipart (boundary_of ''k3x9'')
         (concat (chunks (multipartStream
            [preamble_streaming (boundary_of ''k3x9'') ''gpt-4o-mini-transcribe'' ''audio/webm'']
            (epilogue (boundary_of ''k3x9''))
            (audio_reads True (map DataAvailable [''ab'', [], ''cd''] @ [Stopped]))))))
     = Some [''gpt-4o-mini-transcribe'', ''true'', ''abcd'']"
    by (simp only: T [THEN conjunct1]) simp
  have b: "chunks (multipartStream [''P''] ''E'' [Value ''a'', Value ''b'']) = [''P'', ''a'', ''b'']"
    by (simp only: T [THEN conjunct2, THEN conjunct2, THEN conjunct2, THEN conjunct1]) simp
  have c: "chunks (multipartStream [''P''] ''E'' [Value ''a'', Done]) = [''P'', ''a'', ''E'']"
    by (simp only: T [THEN conjunct2, THEN conjunct2, THEN conjunct2, THEN conjunct1]) simp
  show ?thesis using h1 h2 h3 h4 a b c by blast
qed

text \<open>
  The round trip does not hold for all chunk sequences: a blob that holds the closing
  delimiter of the request ends the file part early, and the bytes after it are lost to
  the reader.
\<close>

theorem multipart_roundtrip_counterexample:
  \<open>map_option (map content)
     (parse_multipart (boundary_of ''k3x9'')
        (concat (chunks (multipartStream
           [preamble_streaming (boundary_of ''k3x9'') ''gpt-4o-mini-transcribe'' []]
           (epilogue (boundary_of ''k3x9''))
           (audio_reads True [DataAvailable ''ab'',
              DataAvailable (CRLF @ ''------WebKitFormBoundaryk3x9--''), DataAvailable ''cd'',
              Stopped])))))
   = Some [''gpt-4o-mini-transcribe'', ''true'', ''ab'']
   \<and> concat [''ab'', CRLF @ ''------WebKitFormBoundaryk3x9--'', ''cd''] \<noteq> ''ab''\<close>
  by code_simp

section \<open>The session controllers\<close>

text \<open>
  Each node is a record of the fields of its class together with the part of the platform
  it drives: the promises it has handed to the page, the abort signals it has created, the
  state of the recorder, and \<open>trace\<close>, the list of the effects it has caused, in order.

  A call of the page runs a method up to its first suspension on a platform promise that
  is not settled yet (\<open>getUserMedia\<close>, \<open>fetch\<close>, a body read); a further function of the
  model resumes it when the environment settles that promise. An \<open>await\<close> on a promise that
  is already settled is continued within the same step. \<open>transcription$.next(text)\<close> is
  recorded as the event that the subscriber installed by \<open>connectedCallback\<close> dispatches.
\<close>

subsection \<open>What a node does that the page can observe\<close>

text \<open>A promise handed to the page; \<open>resolve\<close> and \<open>reject\<close> act on a pending promise only.\<close>

datatype promise = Pending | Fulfilled jsstring | Rejected error

text \<open>
  Effects: calls on the platform (\<open>getUserMedia\<close>, the recorder, \<open>fetch\<close> with the index of
  its signal, \<open>AbortController.abort\<close>, the recognizer), \<open>dispatchEvent\<close> of the recognized
  event with its \<open>text\<close> and \<open>isFinal\<close>, and console output.
\<close>

datatype effect =
    GetUserMedia
  | NewMediaRecorder
  | RecorderStart "nat option"
  | RecorderStop
  | Fetch nat
  | SignalAbort nat
  | Dispatch jsstring bool
  | ConsoleLog string
  | ConsoleError string
  | SetRecognizerHandlers
  | RecognitionStart
  | RecognitionStop
  | RecognitionAbort

text \<open>\<open>document.querySelector("settings-node")?.getSettings()\<close>: \<open>None\<close> when the page has
  no settings node. A key counts when it is truthy: defined and not empty.\<close>

record settings =
  openaiKey :: jsstring
  azureSpeechKey :: jsstring
  azureSpeechRegion :: jsstring

definition truthy :: "jsstring \<Rightarrow> bool" where
  "truthy v = (case v of None \<Rightarrow> False | Some s \<Rightarrow> s \<noteq> [])"

text \<open>\<open>!v\<close>\<close>

definition falsy :: "jsstring \<Rightarrow> bool" where
  "falsy v = (\<not> truthy v)"

text \<open>What the three controllers have in common.\<close>

record stt_node =
  isStarted :: bool
  promises :: "promise list"
  trace :: "effect list"

text \<open>\<open>resolve\<close> or \<open>reject\<close> of promise \<open>p\<close>, and the same through a field that may be
  \<open>null\<close> (\<open>this.transcriptionPromise?.resolve(...)\<close>).\<close>

definition settle :: "nat \<Rightarrow> promise \<Rightarrow> 'a stt_node_scheme \<Rightarrow> 'a stt_node_scheme" where
  "settle p r s =
     (if p < length (promises s) \<and> promises s ! p = Pending
      then s\<lparr>promises := (promises s)[p := r]\<rparr> else s)"

definition settle_opt :: "nat option \<Rightarrow> promise \<Rightarrow> 'a stt_node_scheme \<Rightarrow> 'a stt_node_scheme" where
  "settle_opt po r s = (case po of None \<Rightarrow> s | Some p \<Rightarrow> settle p r s)"

text \<open>Appending to the trace, and the recognized events of a trace.\<close>

definition emit :: "effect list \<Rightarrow> 'a stt_node_scheme \<Rightarrow> 'a stt_node_scheme" where
  "emit es s = s\<lparr>trace := trace s @ es\<rparr>"

fun dispatched :: "effect list \<Rightarrow> (jsstring \<times> bool) list" where
  "dispatched [] = []"
| "dispatched (Dispatch t f # es) = (t, f) # dispatched es"
| "dispatched (e # es) = dispatched es"

text \<open>
  The two network-backed controllers share an abort controller (\<open>null\<close> or the index of its
  signal in \<open>signals\<close>, the aborted flags of all signals created so far), and one cached
  recorder: \<open>recorderResolved\<close> says that the \<open>Promise.withResolvers<MediaRecorder>()\<close> is
  fulfilled, \<open>recording\<close> that the recorder's state is \<open>"recording"\<close>.
\<close>

record net_node = stt_node +
  abortController :: "nat option"
  signals :: "bool list"
  recorderResolved :: bool
  recording :: bool

text \<open>\<open>this.abortController?.abort()\<close>, and whether the signal with index \<open>c\<close> is aborted.\<close>

definition signal_abort :: "'a net_node_scheme \<Rightarrow> 'a net_node_scheme" where
  "signal_abort s =
     (case abortController s of
        None \<Rightarrow> s
      | Some c \<Rightarrow> emit [SignalAbort c] (s\<lparr>signals := (signals s)[c := True]\<rparr>))"

definition aborted :: "nat \<Rightarrow> 'a net_node_scheme \<Rightarrow> bool" where
  "aborted c s = (c < length (signals s) \<and> signals s ! c)"

subsection \<open>\<open>OpenAISttNode\<close> and \<open>OpenAIStreamingSttNode\<close>\<close>

text \<open>
  The two classes differ in the transcribe function they call, in the \<open>onDelta\<close> callback
  and in the tag of their log lines; one model with a \<open>variant\<close> covers both.
\<close>

datatype variant = Batch | Streaming

fun tag :: "variant \<Rightarrow> string" where
  "tag Batch = ''[openai-stt]''"
| "tag Streaming = ''[openai-streaming-stt]''"

text \<open>
  Where a call of \<open>transcribeOpenAI\<close> or \<open>transcribeOpenAIStreaming\<close> is suspended:
  in \<open>fetch\<close>, in \<open>resp.json()\<close> (batch, with \<open>resp.ok\<close>), in \<open>resp.text()\<close> of a response
  that is not ok (streaming, with \<open>resp.status\<close>), or in a read of the event stream with the
  parser's variables. \<open>Settled\<close>: its promise is settled and \<open>.then\<close>/\<open>.catch\<close> have run.
  A cycle keeps the signal it was started with.
\<close>

datatype oa_phase =
    AwaitFetch
  | AwaitJson bool
  | AwaitErrorText nat
  | Reading sse_state
  | Settled

record cycle =
  csignal :: nat
  cphase :: oa_phase

text \<open>A pending \<open>getUserMedia\<close> call belongs to a \<open>startMicrophone()\<close> of the page or to a
  \<open>start()\<close> that awaits \<open>startMicrophone()\<close>; the latter carries the promise of that
  \<open>start()\<close>. The environment settles the oldest pending call first.\<close>

datatype gum_waiter = FromStartMicrophone | FromStart nat

record openai_node = net_node +
  isMicStarted :: bool
  gumWaiters :: "gum_waiter list"
  cycles :: "cycle list"

definition openai_init :: openai_node where
  "openai_init = \<lparr>isStarted = False, promises = [], trace = [], abortController = None,
     signals = [], recorderResolved = False, recording = False, isMicStarted = False,
     gumWaiters = [], cycles = []\<rparr>"

text \<open>\<open>startMicrophone\<close> in two halves: up to \<open>await getUserMedia(...)\<close>, and after it.\<close>

definition mic_call :: "gum_waiter \<Rightarrow> openai_node \<Rightarrow> openai_node" where
  "mic_call w s = emit [GetUserMedia] (s\<lparr>gumWaiters := gumWaiters s @ [w]\<rparr>)"

definition mic_resume :: "variant \<Rightarrow> openai_node \<Rightarrow> openai_node" where
  "mic_resume v s =
     emit [NewMediaRecorder, ConsoleLog (tag v @ '' mic started'')]
       (s\<lparr>recorderResolved := True, isMicStarted := True\<rparr>)"

definition openai_startMicrophone :: "openai_node \<Rightarrow> openai_node" where
  "openai_startMicrophone s = (if isMicStarted s then s else mic_call FromStartMicrophone s)"

text \<open>
  \<open>start()\<close> after \<open>await this.startMicrophone()\<close>: the settings are read and the key is
  checked; then \<open>isStarted = true\<close>, the recorder is awaited, a fresh abort controller is
  armed, \<open>mediaRecorder.start(250)\<close> runs (it throws \<open>InvalidStateError\<close> unless the recorder is
  inactive) and the transcribe function is called, which issues the \<open>fetch\<close>. The promise
  of \<open>start()\<close> then resolves with \<open>undefined\<close>.
\<close>

definition start_resume :: "variant \<Rightarrow> settings option \<Rightarrow> nat \<Rightarrow> openai_node \<Rightarrow> openai_node" where
  "start_resume v cfg p s =
     (if falsy (Option.bind cfg openaiKey) then settle p (Rejected MissingOpenAIKey) s
      else if \<not> recorderResolved s then s\<lparr>isStarted := True\<rparr>
      else
        (let c = length (signals s);
             s1 = s\<lparr>isStarted := True, abortController := Some c, signals := signals s @ [False]\<rparr>
         in if recording s1 then settle p (Rejected InvalidState) s1
            else settle p (Fulfilled None)
                   (emit [RecorderStart (Some 250), Fetch c]
                      (s1\<lparr>recording := True,
                          cycles := cycles s1 @ [\<lparr>csignal = c, cphase = AwaitFetch\<rparr>]\<rparr>))))"

definition openai_start :: "variant \<Rightarrow> settings option \<Rightarrow> openai_node \<Rightarrow> nat \<times> openai_node" where
  "openai_start v cfg s =
     (let p = length (promises s) in
      if isStarted s then (p, s\<lparr>promises := promises s @ [Fulfilled None]\<rparr>)
      else if isMicStarted s
      then (p, start_resume v cfg p (s\<lparr>promises := promises s @ [Pending]\<rparr>))
      else (p, mic_call (FromStart p) (s\<lparr>promises := promises s @ [Pending]\<rparr>)))"

text \<open>The environment settles the oldest pending \<open>getUserMedia\<close> call.\<close>

definition gum_resolved :: "variant \<Rightarrow> settings option \<Rightarrow> openai_node \<Rightarrow> openai_node" where
  "gum_resolved v cfg s =
     (case gumWaiters s of
        [] \<Rightarrow> s
      | w # ws \<Rightarrow>
          (let s1 = mic_resume v (s\<lparr>gumWaiters := ws\<rparr>)
           in case w of FromStartMicrophone \<Rightarrow> s1 | FromStart p \<Rightarrow> start_resume v cfg p s1))"

definition gum_rejected :: "openai_node \<Rightarrow> openai_node" where
  "gum_rejected s =
     (case gumWaiters s of
        [] \<Rightarrow> s
      | w # ws \<Rightarrow>
          (case w of
             FromStartMicrophone \<Rightarrow> s\<lparr>gumWaiters := ws\<rparr>
           | FromStart p \<Rightarrow> settle p (Rejected CaptureFailed) (s\<lparr>gumWaiters := ws\<rparr>)))"


definition openai_abort :: "variant \<Rightarrow> openai_node \<Rightarrow> openai_node" where
  "openai_abort v s =
     (if \<not> isStarted s then s
      else emit [ConsoleLog (tag v @ '' aborted'')] ((signal_abort s)\<lparr>isStarted := False\<rparr>))"

text \<open>
  What the pending operation of a cycle settles with: the response of \<open>fetch\<close> (\<open>ok\<close>,
  \<open>status\<close>, whether it has a body), the \<open>text\<close> property of the parsed JSON body, the
  text of an error body, a chunk or the end of the event stream, or a rejection.
  \<open>transcribe_step\<close> is the code of the transcribe function between two suspensions; it
  continues (with the \<open>onDelta\<close> calls it made), returns, or calls \<open>onError\<close> and throws.
\<close>

datatype net_event =
    FetchResolved bool nat bool
  | JsonResolved jsstring
  | TextResolved string
  | ReadResolved string
  | ReadDone
  | NetRejected error

datatype step_result = Continue oa_phase "jsstring list" | Resolve jsstring | Fail error

fun transcribe_step ::
  "variant \<Rightarrow> (string \<Rightarrow> frame option) \<Rightarrow> oa_phase \<Rightarrow> net_event \<Rightarrow> step_result" where
  "transcribe_step v parse Settled ev = Continue Settled []"
| "transcribe_step v parse ph (NetRejected e) = Fail e"
| "transcribe_step Batch parse AwaitFetch (FetchResolved ok status body) = Continue (AwaitJson ok) []"
| "transcribe_step Batch parse (AwaitJson ok) (JsonResolved text) =
     (if \<not> ok then Fail ErrorPayload else Resolve text)"
| "transcribe_step Streaming parse AwaitFetch (FetchResolved ok status body) =
     (if \<not> ok then Continue (AwaitErrorText status) []
      else if \<not> body then Fail NoResponseBody
      else Continue (Reading sse_init) [])"
| "transcribe_step Streaming parse (AwaitErrorText status) (TextResolved errorText) =
     Fail (HttpError status errorText)"
| "transcribe_step Streaming parse (Reading st) (ReadResolved val) =
     (let st' = on_read parse val st
      in Continue (Reading st') (drop (length (deltas st)) (deltas st')))"
| "transcribe_step Streaming parse (Reading st) ReadDone = Resolve (finalText st)"
| "transcribe_step v parse ph ev = Continue ph []"

text \<open>
  The environment settles the pending operation of cycle \<open>i\<close>. An operation whose signal
  is aborted rejects with \<open>AbortError\<close>, whatever the network would have delivered (Fetch
  standard). The handlers of \<open>start()\<close> follow: \<open>onDelta\<close> dispatches a non-final event,
  \<open>.then\<close> emits the text as the final event, \<open>onError\<close> logs and emits the empty final
  event, \<open>.catch\<close> logs.
\<close>

definition openai_net ::
  "variant \<Rightarrow> (string \<Rightarrow> frame option) \<Rightarrow> nat \<Rightarrow> net_event \<Rightarrow> openai_node \<Rightarrow> openai_node" where
  "openai_net v parse i ev s =
     (if i < length (cycles s) then
        (let c = cycles s ! i;
             ev' = (if aborted (csignal c) s then NetRejected AbortError else ev)
         in case transcribe_step v parse (cphase c) ev' of
              Continue ph ds \<Rightarrow>
                emit (map (\<lambda>d. Dispatch d False) ds) (s\<lparr>cycles := (cycles s)[i := c\<lparr>cphase := ph\<rparr>]\<rparr>)
            | Resolve text \<Rightarrow>
                emit [Dispatch text True] (s\<lparr>cycles := (cycles s)[i := c\<lparr>cphase := Settled\<rparr>]\<rparr>)
            | Fail e \<Rightarrow>
                emit [ConsoleError (tag v @ '' error''), Dispatch (Some []) True,
                      ConsoleError (tag v @ '' failed'')]
                  (s\<lparr>cycles := (cycles s)[i := c\<lparr>cphase := Settled\<rparr>]\<rparr>))
      else s)"

subsection \<open>\<open>AzureSttNode\<close>\<close>

text \<open>
  \<open>start()\<close> is synchronous here; \<open>beginTranscription\<close> runs beside it and is suspended
  on the recorder promise, in \<open>fetch\<close> or in \<open>response.json()\<close>. \<open>micPending\<close> counts the
  \<open>getUserMedia\<close> calls that are not settled yet.
\<close>

datatype az_phase =
    NoCycle
  | AwaitRecorder
  | AzAwaitFetch nat
  | AzAwaitJson nat bool

record azure_node = net_node +
  isMicrophoneStarted :: bool
  transcriptionPromiseAPI :: "nat option"
  micPending :: nat
  phase :: az_phase

definition azure_init :: azure_node where
  "azure_init = \<lparr>isStarted = False, promises = [], trace = [], abortController = None,
     signals = [], recorderResolved = False, recording = False, isMicrophoneStarted = False,
     transcriptionPromiseAPI = None, micPending = 0, phase = NoCycle\<rparr>"

definition azure_startMicrophone :: "azure_node \<Rightarrow> azure_node" where
  "azure_startMicrophone s =
     (if isMicrophoneStarted s then s
      else emit [GetUserMedia] (s\<lparr>micPending := Suc (micPending s)\<rparr>))"

text \<open>The \<open>finally\<close> and \<open>catch\<close> blocks of \<open>beginTranscription\<close>.\<close>

definition finally_block :: "azure_node \<Rightarrow> azure_node" where
  "finally_block s =
     s\<lparr>isStarted := False, transcriptionPromiseAPI := None, abortController := None,
       phase := NoCycle\<rparr>"

definition catch_block :: "azure_node \<Rightarrow> azure_node" where
  "catch_block s =
     finally_block
       (emit [ConsoleLog ''Transcribe handled error'']
          (settle_opt (transcriptionPromiseAPI s) (Fulfilled (Some []))
             (emit [Dispatch (Some []) True] s)))"

text \<open>\<open>beginTranscription\<close> after the recorder promise is fulfilled: \<open>mediaRecorder.start()\<close>,
  then \<open>transcribe\<close> with \<open>this.abortController!.signal\<close>, up to its \<open>fetch\<close>.\<close>

definition begin_resume :: "azure_node \<Rightarrow> azure_node" where
  "begin_resume s =
     (if recording s then catch_block s
      else
        (let s1 = emit [RecorderStart None] (s\<lparr>recording := True\<rparr>)
         in case abortController s1 of
              None \<Rightarrow> catch_block s1
            | Some c \<Rightarrow> emit [Fetch c] (s1\<lparr>phase := AzAwaitFetch c\<rparr>)))"

definition beginTranscription :: "azure_node \<Rightarrow> azure_node" where
  "beginTranscription s =
     (if recorderResolved s then begin_resume s else s\<lparr>phase := AwaitRecorder\<rparr>)"

definition azure_start :: "settings option \<Rightarrow> azure_node \<Rightarrow> nat \<times> azure_node" where
  "azure_start cfg s =
     (let p = length (promises s) in
      if isStarted s then
        (case transcriptionPromiseAPI s of
           Some q \<Rightarrow> (q, s)
         | None \<Rightarrow> (p, s\<lparr>promises := promises s @ [Fulfilled (Some [])]\<rparr>))
      else if falsy (Option.bind cfg azureSpeechKey) \<or> falsy (Option.bind cfg azureSpeechRegion)
      then (p, s\<lparr>promises := promises s @ [Rejected MissingAzureCredentials]\<rparr>)
      else
        (let c = length (signals s);
             s1 = s\<lparr>isStarted := True, transcriptionPromiseAPI := Some p,
                    promises := promises s @ [Pending],
                    abortController := Some c, signals := signals s @ [False]\<rparr>;
             s2 = (if \<not> isMicrophoneStarted s1 then azure_startMicrophone s1 else s1)
         in (p, beginTranscription s2)))"

definition azure_gum_resolved :: "azure_node \<Rightarrow> azure_node" where
  "azure_gum_resolved s =
     (if micPending s = 0 then s
      else
        (let s1 = emit [NewMediaRecorder, ConsoleLog ''[azure-stt] microphone started'']
                    (s\<lparr>micPending := micPending s - 1, recorderResolved := True,
                       isMicrophoneStarted := True\<rparr>)
         in if phase s1 = AwaitRecorder then begin_resume s1 else s1))"

text \<open>A rejected \<open>getUserMedia\<close> rejects the promise of \<open>startMicrophone()\<close>, which \<open>start()\<close>
  does not await; \<open>beginTranscription\<close> stays suspended on the recorder promise.\<close>

definition azure_gum_rejected :: "azure_node \<Rightarrow> azure_node" where
  "azure_gum_rejected s = s\<lparr>micPending := micPending s - 1\<rparr>"


definition azure_abort :: "azure_node \<Rightarrow> azure_node" where
  "azure_abort s =
     (if \<not> isStarted s then s
      else emit [ConsoleLog ''[azure-stt] session aborted''] (signal_abort s))"

text \<open>The response JSON is read through \<open>combinedPhrases\<close>: the list of the phrases' texts;
  \<open>first_phrase\<close> is \<open>result.combinedPhrases.at(0)?.text ?? ""\<close>.\<close>

datatype az_event =
    AzFetchResolved bool
  | AzJsonResolved "string list"
  | AzRejected error

definition first_phrase :: "string list \<Rightarrow> string" where
  "first_phrase phrases = (case phrases of [] \<Rightarrow> [] | t # ts \<Rightarrow> t)"

definition resolve_block :: "string list \<Rightarrow> azure_node \<Rightarrow> azure_node" where
  "resolve_block phrases s =
     finally_block
       (settle_opt (transcriptionPromiseAPI s) (Fulfilled (Some (first_phrase phrases)))
          (emit [ConsoleLog ''[azure-stt] text started'',
                 Dispatch (Some (first_phrase phrases)) True] s))"

definition azure_net :: "az_event \<Rightarrow> azure_node \<Rightarrow> azure_node" where
  "azure_net ev s =
     (case phase s of
        AzAwaitFetch c \<Rightarrow>
          (case (if aborted c s then AzRejected AbortError else ev) of
             AzFetchResolved ok \<Rightarrow> s\<lparr>phase := AzAwaitJson c ok\<rparr>
           | AzRejected e \<Rightarrow> catch_block s
           | AzJsonResolved phrases \<Rightarrow> s)
      | AzAwaitJson c ok \<Rightarrow>
          (case (if aborted c s then AzRejected AbortError else ev) of
             AzJsonResolved phrases \<Rightarrow> if \<not> ok then catch_block s else resolve_block phrases s
           | AzRejected e \<Rightarrow> catch_block s
           | AzFetchResolved ok' \<Rightarrow> s)
      | NoCycle \<Rightarrow> s
      | AwaitRecorder \<Rightarrow> s)"

subsection \<open>\<open>WebSttNode\<close>\<close>

text \<open>
  \<open>continuous\<close> is \<open>recognition.continuous\<close>. The four handlers are properties of the
  recognizer (\<open>onstart\<close>, \<open>onresult\<close>, \<open>onerror\<close>, \<open>onend\<close>), so assigning them again replaces
  them: \<open>listeners\<close> is the number of handlers attached per event. The callbacks below are
  the handlers that \<open>initSession\<close> installs; \<open>onresult\<close> takes the transcript and \<open>isFinal\<close>
  of each result of the event.
\<close>

record web_node = stt_node +
  continuous :: bool
  transcriptionPromise :: "nat option"
  listeners :: nat

definition web_init :: web_node where
  "web_init = \<lparr>isStarted = False, promises = [], trace = [], continuous = False,
     transcriptionPromise = None, listeners = 0\<rparr>"

definition initSession :: "web_node \<Rightarrow> web_node" where
  "initSession s = emit [SetRecognizerHandlers] (s\<lparr>isStarted := True, continuous := True, listeners := 1\<rparr>)"

definition web_start :: "web_node \<Rightarrow> nat \<times> web_node" where
  "web_start s =
     (let p = length (promises s) in
      if isStarted s then
        (case transcriptionPromise s of
           None \<Rightarrow> (p, s\<lparr>transcriptionPromise := Some p, promises := promises s @ [Pending]\<rparr>)
         | Some q \<Rightarrow> (q, s))
      else
        (p, emit [RecognitionStart]
              (initSession (s\<lparr>transcriptionPromise := Some p, promises := promises s @ [Pending]\<rparr>))))"

definition web_stop :: "web_node \<Rightarrow> web_node" where
  "web_stop s = emit [RecognitionStop] (s\<lparr>continuous := False\<rparr>)"

definition web_abort :: "web_node \<Rightarrow> web_node" where
  "web_abort s = emit [RecognitionAbort] (s\<lparr>continuous := False\<rparr>)"


definition onerror :: "string \<Rightarrow> web_node \<Rightarrow> web_node" where
  "onerror err s =
     (if listeners s = 0 then s
      else
        (let s1 = emit [ConsoleError ''[recognition] silently omit error''] s;
             s2 = (settle_opt (transcriptionPromise s1) (Rejected (RecognizerError err)) s1)
                    \<lparr>isStarted := False\<rparr>
         in if continuous s2 then snd (web_start (initSession s2)) else s2))"

definition onend :: "web_node \<Rightarrow> web_node" where
  "onend s =
     (if listeners s = 0 then s
      else
        (let s1 = (settle_opt (transcriptionPromise s) (Fulfilled (Some [])) (s\<lparr>isStarted := False\<rparr>))
                    \<lparr>transcriptionPromise := None\<rparr>;
             s2 = emit [RecognitionStop, ConsoleLog ''[recognition] session ended''] s1
         in if continuous s2 then emit [RecognitionStart] (initSession s2) else s2))"

subsection \<open>Sample settings and states\<close>

definition no_credentials :: "settings option" where
  "no_credentials = Some \<lparr>openaiKey = None, azureSpeechKey = None, azureSpeechRegion = None\<rparr>"

definition credentials :: "settings option" where
  "credentials =
     Some \<lparr>openaiKey = Some ''sk-test'', azureSpeechKey = Some ''key'',
           azureSpeechRegion = Some ''westus''\<rparr>"

text \<open>A first \<open>start()\<close> whose microphone request was granted: recording, request in flight.\<close>

definition openai_in_flight :: "variant \<Rightarrow> openai_node" where
  "openai_in_flight v = gum_resolved v credentials (snd (openai_start v credentials openai_init))"

definition azure_in_flight :: azure_node where
  "azure_in_flight = azure_gum_resolved (snd (azure_start credentials azure_init))"

definition azure_non2xx :: azure_node where
  "azure_non2xx = azure_net (AzFetchResolved False) azure_in_flight"



section \<open>Properties of the session controllers\<close>

subsection \<open>Steps of the controllers, in closed form\<close>

lemma transcribe_step_rejected:
  "ph \<noteq> Settled \<Longrightarrow> transcribe_step v parse ph (NetRejected e) = Fail e"
  by (cases ph) simp_all

lemma openai_net_fail:
  assumes "i < length (cycles s)"
    and "transcribe_step v parse (cphase (cycles s ! i))
           (if aborted (csignal (cycles s ! i)) s then NetRejected AbortError else ev) = Fail e"
  shows "openai_net v parse i ev s =
     emit [ConsoleError (tag v @ '' error''), Dispatch (Some []) True,
           ConsoleError (tag v @ '' failed'')]
       (s\<lparr>cycles := (cycles s)[i := (cycles s ! i)\<lparr>cphase := Settled\<rparr>]\<rparr>)"
  using assms by (simp add: openai_net_def Let_def)

lemma openai_net_promises: "promises (openai_net v parse i ev s) = promises s"
  by (simp add: openai_net_def Let_def emit_def split: step_result.splits)


lemma azure_abort_effect:
  assumes "isStarted a" and "abortController a = Some c"
  shows "azure_abort a =
     a\<lparr>signals := (signals a)[c := True],
       trace := trace a @ [SignalAbort c, ConsoleLog ''[azure-stt] session aborted'']\<rparr>"
  using assms by (simp add: azure_abort_def signal_abort_def emit_def)

lemma catch_block_effect:
  assumes "transcriptionPromiseAPI a = Some p" and "p < length (promises a)"
    and "promises a ! p = Pending"
  shows "catch_block a =
     a\<lparr>isStarted := False, transcriptionPromiseAPI := None, abortController := None,
       phase := NoCycle, promises := (promises a)[p := Fulfilled (Some [])],
       trace := trace a @ [Dispatch (Some []) True, ConsoleLog ''Transcribe handled error'']\<rparr>"
  using assms by (simp add: catch_block_def finally_block_def settle_opt_def settle_def emit_def)

lemma azure_net_aborted:
  assumes "phase a = AzAwaitFetch c \<or> phase a = AzAwaitJson c ok" and "aborted c a"
  shows "azure_net ev a = catch_block a"
  using assms by (auto simp: azure_net_def)

lemma catch_block_stops: "\<not> isStarted (catch_block a)"
  by (simp add: catch_block_def finally_block_def)

lemma dispatched_append: "dispatched (xs @ ys) = dispatched xs @ dispatched ys"
  by (induction xs rule: dispatched.induct) simp_all

lemma azure_net_failure:
  assumes "phase a = AzAwaitFetch c \<or> phase a = AzAwaitJson c ok"
    and "aev = AzRejected e \<or> (phase a = AzAwaitJson c False \<and> aev = AzJsonResolved phrases)"
  shows "azure_net aev a = catch_block a"
  using assms by (auto simp: azure_net_def)




lemma openai_in_flight_eq:
  "openai_in_flight v =
     \<lparr>isStarted = True, promises = [Fulfilled None],
      trace = [GetUserMedia, NewMediaRecorder, ConsoleLog (tag v @ '' mic started''),
               RecorderStart (Some 250), Fetch 0],
      abortController = Some 0, signals = [False], recorderResolved = True, recording = True,
      isMicStarted = True, gumWaiters = [], cycles = [\<lparr>csignal = 0, cphase = AwaitFetch\<rparr>]\<rparr>"
  by (simp add: openai_in_flight_def openai_start_def openai_init_def mic_call_def emit_def
      gum_resolved_def mic_resume_def start_resume_def falsy_def credentials_def truthy_def settle_def)

lemma azure_in_flight_eq:
  "azure_in_flight =
     \<lparr>isStarted = True, promises = [Pending],
      trace = [GetUserMedia, NewMediaRecorder, ConsoleLog ''[azure-stt] microphone started'',
               RecorderStart None, Fetch 0],
      abortController = Some 0, signals = [False], recorderResolved = True, recording = True,
      isMicrophoneStarted = True, transcriptionPromiseAPI = Some 0, micPending = 0,
      phase = AzAwaitFetch 0\<rparr>"
  by (simp add: azure_in_flight_def azure_gum_resolved_def azure_start_def falsy_def azure_init_def
      credentials_def truthy_def azure_startMicrophone_def beginTranscription_def
      begin_resume_def emit_def Let_def)



subsection \<open>Missing credential\<close>

text \<open>
  Claim C1. With no key configured, \<open>start()\<close> should fail before any capture side effect.
  In both OpenAI nodes \<open>start()\<close> awaits \<open>startMicrophone()\<close> before it reads the settings:
  on a fresh node without a key the call requests the microphone and stays pending, and
  only when \<open>getUserMedia\<close> has settled does it reject with the missing-key error; if
  the microphone is refused it rejects with that failure instead. The Azure node checks
  its credentials first and rejects without any effect.
\<close>

theorem openai_start_checks_key_after_microphone:
  "trace (snd (openai_start v no_credentials openai_init)) = [GetUserMedia]
   \<and> promises (snd (openai_start v no_credentials openai_init)) = [Pending]
   \<and> promises (gum_resolved v no_credentials (snd (openai_start v no_credentials openai_init)))
       = [Rejected MissingOpenAIKey]
   \<and> trace (gum_resolved v no_credentials (snd (openai_start v no_credentials openai_init)))
       = [GetUserMedia, NewMediaRecorder, ConsoleLog (tag v @ '' mic started'')]
   \<and> promises (gum_rejected (snd (openai_start v no_credentials openai_init)))
       = [Rejected CaptureFailed]
   \<and> azure_start no_credentials azure_init
       = (0, azure_init\<lparr>promises := [Rejected MissingAzureCredentials]\<rparr>)"
  by (simp add: openai_start_def openai_init_def mic_call_def emit_def gum_resolved_def
      gum_rejected_def
      mic_resume_def start_resume_def falsy_def no_credentials_def truthy_def settle_def
      azure_start_def azure_init_def)

subsection \<open>A second \<open>start()\<close>\<close>

text \<open>
  Claim C8. A second \<open>start()\<close> without a \<open>stop()\<close> or \<open>abort()\<close> in between should be a
  no-op that does not acquire the microphone again. The OpenAI nodes set \<open>isStarted\<close> only
  after \<open>await this.startMicrophone()\<close>, so a second \<open>start()\<close> that arrives while the first
  microphone request is pending passes both guards and calls \<open>getUserMedia\<close> again; when
  the requests are granted, the second call replaces the abort controller of the running
  cycle (whose signal is 0) and then rejects, because the recorder is already recording.
  The Azure node sets \<open>isStarted\<close> before anything is awaited: its second \<open>start()\<close> returns
  the promise of the first and requests nothing. Once an OpenAI node is started, a further
  \<open>start()\<close> has no effect and launches no cycle, and \<open>startMicrophone()\<close> on an acquired
  microphone changes nothing.
\<close>

theorem openai_second_start_acquires_microphone_again:
  "trace (snd (openai_start v credentials (snd (openai_start v credentials openai_init))))
     = [GetUserMedia, GetUserMedia]
   \<and> promises (gum_resolved v credentials (gum_resolved v credentials
        (snd (openai_start v credentials (snd (openai_start v credentials openai_init))))))
     = [Fulfilled None, Rejected InvalidState]
   \<and> abortController (gum_resolved v credentials (gum_resolved v credentials
        (snd (openai_start v credentials (snd (openai_start v credentials openai_init))))))
     = Some 1
   \<and> cycles (gum_resolved v credentials (gum_resolved v credentials
        (snd (openai_start v credentials (snd (openai_start v credentials openai_init))))))
     = [\<lparr>csignal = 0, cphase = AwaitFetch\<rparr>]
   \<and> trace (snd (azure_start credentials (snd (azure_start credentials azure_init))))
     = [GetUserMedia]
   \<and> fst (azure_start credentials (snd (azure_start credentials azure_init)))
     = fst (azure_start credentials azure_init)
   \<and> trace (snd (openai_start v credentials (openai_in_flight v))) = trace (openai_in_flight v)
   \<and> cycles (snd (openai_start v credentials (openai_in_flight v))) = cycles (openai_in_flight v)
   \<and> openai_startMicrophone (openai_in_flight v) = openai_in_flight v"
  by (simp add: openai_start_def openai_init_def mic_call_def emit_def gum_resolved_def
      mic_resume_def start_resume_def falsy_def credentials_def truthy_def settle_def
      azure_start_def azure_init_def azure_startMicrophone_def beginTranscription_def Let_def
      openai_in_flight_eq openai_startMicrophone_def)

subsection \<open>Restart of the local recognizer after an error\<close>

text \<open>
  Claim C5. An \<open>onerror\<close> callback in continuous mode should re-initialize the recognizer
  once and start it again. The handler calls \<open>initSession()\<close> and then \<open>this.start()\<close>; since
  \<open>initSession()\<close> has just set \<open>isStarted\<close>, \<open>start()\<close> returns the existing promise and never
  reaches \<open>recognition.start()\<close>: the trace after the callback holds the start of the page's
  own \<open>start()\<close> and no other. The recognizer is started again only by the \<open>onend\<close> callback
  that follows, which re-initializes a second time. The handlers stay single, and after
  \<open>stop()\<close> the error callback does not re-initialize.
\<close>

theorem onerror_does_not_restart_recognition:
  "trace (onerror ''no-speech'' (snd (web_start web_init)))
     = [SetRecognizerHandlers, RecognitionStart,
        ConsoleError ''[recognition] silently omit error'', SetRecognizerHandlers]
   \<and> trace (onend (onerror ''no-speech'' (snd (web_start web_init))))
     = [SetRecognizerHandlers, RecognitionStart,
        ConsoleError ''[recognition] silently omit error'', SetRecognizerHandlers,
        RecognitionStop, ConsoleLog ''[recognition] session ended'',
        SetRecognizerHandlers, RecognitionStart]
   \<and> listeners (onerror ''no-speech'' (snd (web_start web_init))) = 1
   \<and> trace (onerror ''no-speech'' (web_stop (snd (web_start web_init))))
     = [SetRecognizerHandlers, RecognitionStart, RecognitionStop,
        ConsoleError ''[recognition] silently omit error'']"
  by (simp add: onerror_def onend_def web_start_def web_init_def initSession_def emit_def
      settle_opt_def settle_def web_stop_def Let_def)

subsection \<open>\<open>abort()\<close> during a cycle\<close>



subsection \<open>The started flag after \<open>abort()\<close>\<close>

text \<open>
  Claim C3 (as amended). In the OpenAI nodes the started flag is clear when \<open>abort()\<close>
  returns. In the Azure node and in the local-recognition node \<open>abort()\<close> leaves the flag
  as it is: the Azure node clears it in the \<open>finally\<close> block of \<open>beginTranscription\<close>, when
  the aborted network operation settles, and the local-recognition node in the \<open>onend\<close>
  callback of the recognizer.
\<close>

theorem abort_started_flag:
  assumes "isStarted a" and "phase a = AzAwaitFetch c \<or> phase a = AzAwaitJson c ok"
    and "abortController a = Some c" and "c < length (signals a)" and "listeners w \<noteq> 0"
  shows "\<not> isStarted (openai_abort v s)
     \<and> isStarted (azure_abort a') = isStarted a'
     \<and> \<not> isStarted (azure_net aev (azure_abort a))
     \<and> isStarted (web_abort w') = isStarted w'
     \<and> \<not> isStarted (onend (web_abort w))"
proof -
  have 1: "\<not> isStarted (openai_abort v s)"
    by (simp add: openai_abort_def emit_def)
  have 2: "isStarted (azure_abort a') = isStarted a'"
    by (simp add: azure_abort_def emit_def signal_abort_def split: option.splits)
  let ?a = "azure_abort a"
  have aa: "?a = a\<lparr>signals := (signals a)[c := True],
       trace := trace a @ [SignalAbort c, ConsoleLog ''[azure-stt] session aborted'']\<rparr>"
    using assms(1,3) by (rule azure_abort_effect)
  have "aborted c ?a" using assms(4) by (simp add: aa aborted_def)
  moreover have "phase ?a = AzAwaitFetch c \<or> phase ?a = AzAwaitJson c ok"
    using assms(2) by (simp add: aa)
  ultimately have "azure_net aev ?a = catch_block ?a"
    by (rule azure_net_aborted [rotated])
  then have 3: "\<not> isStarted (azure_net aev ?a)"
    by (simp add: catch_block_stops)
  have 4: "isStarted (web_abort w') = isStarted w'"
    by (simp add: web_abort_def emit_def)
  have 5: "\<not> isStarted (onend (web_abort w))"
    using assms(5) by (simp add: onend_def web_abort_def emit_def settle_opt_def settle_def
        split: option.splits)
  show ?thesis using 1 2 3 4 5 by blast
qed

theorem abort_started_flag_witness:
  "isStarted azure_in_flight \<and> phase azure_in_flight = AzAwaitFetch 0
   \<and> listeners (snd (web_start web_init)) = 1
   \<and> \<not> isStarted (openai_abort Batch (openai_in_flight Batch))
   \<and> isStarted (azure_abort azure_in_flight)
   \<and> \<not> isStarted (azure_net (AzFetchResolved True) (azure_abort azure_in_flight))
   \<and> isStarted (web_abort (snd (web_start web_init)))
   \<and> \<not> isStarted (onend (web_abort (snd (web_start web_init))))"
proof -
  have k: "isStarted azure_in_flight"
    "phase azure_in_flight = AzAwaitFetch 0 \<or> phase azure_in_flight = AzAwaitJson 0 True"
    "abortController azure_in_flight = Some 0" "0 < length (signals azure_in_flight)"
    by (simp_all add: azure_in_flight_eq)
  have w: "listeners (snd (web_start web_init)) \<noteq> 0" "listeners (snd (web_start web_init)) = 1"
    "isStarted (snd (web_start web_init))"
    by (simp_all add: web_start_def web_init_def initSession_def emit_def)
  note T = abort_started_flag [OF k w(1), of Batch "openai_in_flight Batch" azure_in_flight
      "AzFetchResolved True" "snd (web_start web_init)"]
  have ph: "phase azure_in_flight = AzAwaitFetch 0" by (simp add: azure_in_flight_eq)
  from T k w ph show ?thesis by simp
qed

text \<open>
  As stated for every node, the claim fails: after \<open>abort()\<close> the Azure node and the
  local-recognition node are still started.
\<close>

theorem abort_leaves_azure_started:
  "isStarted (azure_abort (azure_gum_resolved (snd (azure_start credentials azure_init))))
   \<and> isStarted (web_abort (snd (web_start web_init)))"
  by (simp add: azure_abort_def azure_gum_resolved_def azure_start_def falsy_def azure_init_def
      credentials_def truthy_def azure_startMicrophone_def beginTranscription_def
      begin_resume_def emit_def signal_abort_def web_abort_def web_start_def web_init_def
      initSession_def Let_def)

subsection \<open>Failures after a cycle has begun\<close>

text \<open>
  Claim C4 (as amended). In the OpenAI and Azure nodes every failure of a cycle in
  flight is absorbed: a rejected \<open>fetch\<close> or body read, a response that is not ok, a
  response without a body. The OpenAI nodes log, dispatch the empty final event and log
  again, and no promise of the page changes; the Azure node dispatches the empty final
  event, resolves the pending promise with \<open>""\<close> and logs. In the local-recognition node a
  recognizer error is logged and no recognized event is dispatched.
\<close>

theorem failures_are_absorbed:
  assumes "i < length (cycles s)"
    and "(cphase (cycles s ! i) \<noteq> Settled \<and> ev = NetRejected e)
       \<or> (v = Batch \<and> cphase (cycles s ! i) = AwaitJson False \<and> ev = JsonResolved body)
       \<or> (v = Streaming \<and> cphase (cycles s ! i) = AwaitErrorText status \<and> ev = TextResolved errorText)
       \<or> (v = Streaming \<and> cphase (cycles s ! i) = AwaitFetch \<and> ev = FetchResolved True status False)"
    and "phase a = AzAwaitFetch c \<or> phase a = AzAwaitJson c ok"
    and "aev = AzRejected e' \<or> (phase a = AzAwaitJson c False \<and> aev = AzJsonResolved phrases)"
    and "transcriptionPromiseAPI a = Some p" and "p < length (promises a)"
    and "promises a ! p = Pending"
  shows "trace (openai_net v parse i ev s)
       = trace s @ [ConsoleError (tag v @ '' error''), Dispatch (Some []) True,
                    ConsoleError (tag v @ '' failed'')]
     \<and> promises (openai_net v parse i ev s) = promises s
     \<and> cphase (cycles (openai_net v parse i ev s) ! i) = Settled
     \<and> trace (azure_net aev a)
       = trace a @ [Dispatch (Some []) True, ConsoleLog ''Transcribe handled error'']
     \<and> promises (azure_net aev a) = (promises a)[p := Fulfilled (Some [])]
     \<and> phase (azure_net aev a) = NoCycle
     \<and> dispatched (trace (onerror err w)) = dispatched (trace w)
     \<and> (listeners w \<noteq> 0 \<longrightarrow>
          ConsoleError ''[recognition] silently omit error'' \<in> set (trace (onerror err w)))"
proof -
  let ?ph = "cphase (cycles s ! i)"
  let ?ev = "if aborted (csignal (cycles s ! i)) s then NetRejected AbortError else ev"
  have ns: "?ph \<noteq> Settled" using assms(2) by auto
  have "\<exists>x. transcribe_step v parse ?ph ?ev = Fail x"
  proof (cases "aborted (csignal (cycles s ! i)) s")
    case True
    then show ?thesis using ns by (simp add: transcribe_step_rejected)
  next
    case False
    then show ?thesis using assms(2) by (auto simp: transcribe_step_rejected)
  qed
  then obtain x where "transcribe_step v parse ?ph ?ev = Fail x" ..
  with assms(1) have step: "openai_net v parse i ev s =
     emit [ConsoleError (tag v @ '' error''), Dispatch (Some []) True,
           ConsoleError (tag v @ '' failed'')]
       (s\<lparr>cycles := (cycles s)[i := (cycles s ! i)\<lparr>cphase := Settled\<rparr>]\<rparr>)"
    by (rule openai_net_fail)
  have o1: "trace (openai_net v parse i ev s)
       = trace s @ [ConsoleError (tag v @ '' error''), Dispatch (Some []) True,
                    ConsoleError (tag v @ '' failed'')]"
    unfolding step by (simp add: emit_def)
  have o2: "promises (openai_net v parse i ev s) = promises s"
    by (rule openai_net_promises)
  have o3: "cphase (cycles (openai_net v parse i ev s) ! i) = Settled"
    unfolding step using assms(1) by (simp add: emit_def)
  have "azure_net aev a = catch_block a"
    using assms(3,4) by (rule azure_net_failure)
  also have "\<dots> = a\<lparr>isStarted := False, transcriptionPromiseAPI := None, abortController := None,
       phase := NoCycle, promises := (promises a)[p := Fulfilled (Some [])],
       trace := trace a @ [Dispatch (Some []) True, ConsoleLog ''Transcribe handled error'']\<rparr>"
    using assms(5,6,7) by (rule catch_block_effect)
  finally have az: "azure_net aev a = a\<lparr>isStarted := False, transcriptionPromiseAPI := None,
       abortController := None, phase := NoCycle,
       promises := (promises a)[p := Fulfilled (Some [])],
       trace := trace a @ [Dispatch (Some []) True, ConsoleLog ''Transcribe handled error'']\<rparr>" .
  have a1: "trace (azure_net aev a)
       = trace a @ [Dispatch (Some []) True, ConsoleLog ''Transcribe handled error'']"
    unfolding az by simp
  have a2: "promises (azure_net aev a) = (promises a)[p := Fulfilled (Some [])]"
    unfolding az by simp
  have a3: "phase (azure_net aev a) = NoCycle"
    unfolding az by simp
  have w1: "dispatched (trace (onerror err w)) = dispatched (trace w)"
    by (simp add: onerror_def web_start_def initSession_def emit_def settle_opt_def settle_def
        Let_def dispatched_append split: option.splits)
  have w2: "listeners w \<noteq> 0 \<longrightarrow>
          ConsoleError ''[recognition] silently omit error'' \<in> set (trace (onerror err w))"
    by (simp add: onerror_def web_start_def initSession_def emit_def settle_opt_def settle_def
        Let_def split: option.splits)
  show ?thesis using o1 o2 o3 a1 a2 a3 w1 w2 by blast
qed

text \<open>A network failure of the batch node, a response that is not ok of the Azure node,
  and a recognizer error.\<close>

theorem failures_are_absorbed_witness:
  "cphase (cycles (openai_in_flight Batch) ! 0) = AwaitFetch
   \<and> phase azure_non2xx = AzAwaitJson 0 False
   \<and> promises azure_non2xx = [Pending]
   \<and> listeners (snd (web_start web_init)) = 1
   \<and> trace (openai_net Batch json_flat 0 (NetRejected NetworkFailure) (openai_in_flight Batch))
       = trace (openai_in_flight Batch)
         @ [ConsoleError ''[openai-stt] error'', Dispatch (Some []) True,
            ConsoleError ''[openai-stt] failed'']
   \<and> promises (openai_net Batch json_flat 0 (NetRejected NetworkFailure) (openai_in_flight Batch))
       = [Fulfilled None]
   \<and> trace (azure_net (AzJsonResolved []) azure_non2xx)
       = trace azure_non2xx @ [Dispatch (Some []) True, ConsoleLog ''Transcribe handled error'']
   \<and> promises (azure_net (AzJsonResolved []) azure_non2xx) = [Fulfilled (Some [])]
   \<and> dispatched (trace (onerror ''network'' (snd (web_start web_init)))) = []"
proof -
  have az: "azure_non2xx = azure_in_flight\<lparr>phase := AzAwaitJson 0 False\<rparr>"
    by (simp add: azure_non2xx_def azure_net_def azure_in_flight_eq aborted_def)
  have h: "0 < length (cycles (openai_in_flight Batch))"
    "(cphase (cycles (openai_in_flight Batch) ! 0) \<noteq> Settled \<and> NetRejected NetworkFailure = NetRejected NetworkFailure)
       \<or> (Batch = Batch \<and> cphase (cycles (openai_in_flight Batch) ! 0) = AwaitJson False \<and> NetRejected NetworkFailure = JsonResolved None)
       \<or> (Batch = Streaming \<and> cphase (cycles (openai_in_flight Batch) ! 0) = AwaitErrorText 0 \<and> NetRejected NetworkFailure = TextResolved [])
       \<or> (Batch = Streaming \<and> cphase (cycles (openai_in_flight Batch) ! 0) = AwaitFetch \<and> NetRejected NetworkFailure = FetchResolved True 0 False)"
    by (simp_all add: openai_in_flight_eq)
  have k: "phase azure_non2xx = AzAwaitFetch 0 \<or> phase azure_non2xx = AzAwaitJson 0 False"
    "AzJsonResolved [] = AzRejected NetworkFailure
       \<or> (phase azure_non2xx = AzAwaitJson 0 False \<and> AzJsonResolved [] = AzJsonResolved [])"
    "transcriptionPromiseAPI azure_non2xx = Some 0" "0 < length (promises azure_non2xx)"
    "promises azure_non2xx ! 0 = Pending"
    by (simp_all add: az azure_in_flight_eq)
  note T = failures_are_absorbed [OF h k, of json_flat "''network''" "snd (web_start web_init)"]
  have c: "cphase (cycles (openai_in_flight Batch) ! 0) = AwaitFetch"
    "phase azure_non2xx = AzAwaitJson 0 False" "promises azure_non2xx = [Pending]"
    "listeners (snd (web_start web_init)) = 1" "promises (openai_in_flight Batch) = [Fulfilled None]"
    "dispatched (trace (snd (web_start web_init))) = []"
    by (simp_all add: az azure_in_flight_eq openai_in_flight_eq web_start_def web_init_def
        initSession_def emit_def)
  from T c show ?thesis by simp
qed

text \<open>
  As stated for every node, the claim fails on a recognizer error: the local-recognition
  node rejects the pending promise of \<open>start()\<close> with the error and dispatches no event.
\<close>

theorem recognizer_error_rejects_and_emits_nothing:
  "promises (onerror ''network'' (snd (web_start web_init))) = [Rejected (RecognizerError ''network'')]
   \<and> dispatched (trace (onerror ''network'' (snd (web_start web_init)))) = []"
  by (simp add: onerror_def web_start_def web_init_def initSession_def emit_def
      settle_opt_def settle_def Let_def)

subsection \<open>What \<open>start()\<close> resolves with\<close>



end
